theory Spec2Isabelle
  imports Main "HOL-Library.Word"
begin

unbundle bit_operations_syntax

section \<open>Go values: errors, panics, slices\<close>

text \<open>
  The package \<^verbatim>\<open>pkg/cmd/secret/create\<close> (file \<^verbatim>\<open>http.go\<close>) fetches a public key,
  resolves repository names to numeric identifiers and writes a secret. Every function of the
  file returns a Go \<^verbatim>\<open>error\<close> next to its value, and some of its expressions can panic
  (an index or a slice bound out of range, a nil pointer). Both are branches of the model.
\<close>

type_synonym byte = "8 word"

text \<open>
  Modelled from the spec: \<^verbatim>\<open>api.GraphQLError\<close>, one entry of the structured error list
  of a GraphQL response (declared in package \<^verbatim>\<open>api\<close>). The source reads its fields
  \<^verbatim>\<open>Type\<close> and \<^verbatim>\<open>Path\<close>; the path carries the offending name.
\<close>

record GraphQLError =
  Type :: string
  Path :: "string list"
  Message :: string

text \<open>
  Go error values. \<open>GraphQLErrorResponse\<close> is \<^verbatim>\<open>*api.GraphQLErrorResponse\<close> with its
  \<^verbatim>\<open>Errors\<close>; \<open>ClientError\<close> is any other error the api client returns, with its
  message; \<open>CorruptInputError\<close> is \<^verbatim>\<open>base64.CorruptInputError\<close>. \<open>ErrorString m\<close> is
  \<^verbatim>\<open>fmt.Errorf\<close> without \<^verbatim>\<open>%w\<close>, with the formatted message \<open>m\<close>. \<open>WrapError p e\<close> is
  \<^verbatim>\<open>fmt.Errorf\<close> whose format ends in \<^verbatim>\<open>%w\<close>: \<open>p\<close> is the formatted text before the
  cause, \<open>e\<close> the cause that \<^verbatim>\<open>Unwrap\<close> gives back (the message is \<open>p\<close> followed by the
  message of \<open>e\<close>).
\<close>

datatype error =
    GraphQLErrorResponse "GraphQLError list"
  | ClientError string
  | CorruptInputError nat
  | ErrorString string
  | WrapError string error

fun Unwrap :: "error \<Rightarrow> error option" where
  "Unwrap (WrapError p e) = Some e"
| "Unwrap e = None"

text \<open>Run-time panics: \<open>SliceBounds h c\<close> is "slice bounds out of range [:h] with capacity c",
  \<open>IndexOutOfRange i n\<close> is "index out of range [i] with length n".\<close>

datatype panic = SliceBounds nat nat | IndexOutOfRange nat nat | NilPointerDereference

datatype 'a result = Ok 'a | Err error | Panic panic

text \<open>
  A byte slice: \<open>array\<close> is the backing array from the slice's first element on (its length
  is the capacity), \<open>len\<close> the length of the slice.
\<close>

record slice =
  array :: "byte list"
  len :: nat

definition cap :: "slice \<Rightarrow> nat" where
  "cap s = length (array s)"

definition elems :: "slice \<Rightarrow> byte list" where
  "elems s = take (len s) (array s)"

text \<open>The slice expression \<^verbatim>\<open>s[0:high]\<close>: it panics when \<open>high\<close> exceeds the capacity
  (not the length) of \<open>s\<close>.\<close>

definition slice_to :: "slice \<Rightarrow> nat \<Rightarrow> slice result" where
  "slice_to s high =
     (if cap s < high then Panic (SliceBounds high (cap s))
      else Ok \<lparr>array = array s, len = high\<rparr>)"

text \<open>The builtin \<^verbatim>\<open>copy(dst, src)\<close> on an array \<open>dst\<close>: the first
  \<open>min (length dst) (len src)\<close> elements are overwritten.\<close>

definition copy :: "byte list \<Rightarrow> slice \<Rightarrow> byte list" where
  "copy dst src = (let n = min (length dst) (len src) in take n (elems src) @ drop n dst)"

section \<open>\<^verbatim>\<open>base64.StdEncoding.DecodeString\<close>\<close>

text \<open>
  \<^verbatim>\<open>NewPubKey\<close> slices the result of \<^verbatim>\<open>base64.StdEncoding.DecodeString\<close> beyond its
  length, so what it returns depends on the capacity and on the bytes behind the decoded
  ones. The decoder of Go's standard library is therefore modelled as it is written there:
  \<^verbatim>\<open>DecodeString\<close> allocates \<^verbatim>\<open>DecodedLen(len(s))\<close> zero bytes, \<^verbatim>\<open>Decode\<close> calls
  \<^verbatim>\<open>decodeQuantum\<close> until the input is used up, and the result is the buffer cut at the
  number of bytes written. (The two fast paths of \<^verbatim>\<open>Decode\<close> decode eight or four
  characters at once, fall back to \<^verbatim>\<open>decodeQuantum\<close>, and write zero behind the bytes they
  count; they change no result and are left out.) The standard encoding pads with \<^verbatim>\<open>=\<close>
  and is not strict.
\<close>

definition encodeStd :: string where
  "encodeStd = ''ABCDEFGHIJKLMNOPQRSTUVWXYZabcdefghijklmnopqrstuvwxyz0123456789+/''"

fun indexByte :: "string \<Rightarrow> char \<Rightarrow> nat \<Rightarrow> nat option" where
  "indexByte [] c i = None"
| "indexByte (x # xs) c i = (if x = c then Some i else indexByte xs c (Suc i))"

text \<open>\<^verbatim>\<open>enc.decodeMap\<close>: the position in the alphabet, \<open>0xFF\<close> for any other byte.\<close>

definition decodeMap :: "char \<Rightarrow> byte" where
  "decodeMap c = (case indexByte encodeStd c 0 of None \<Rightarrow> 0xFF | Some i \<Rightarrow> of_nat i)"

definition padChar :: char where
  "padChar = CHR ''=''"

definition isNewline :: "char \<Rightarrow> bool" where
  "isNewline c = (c = CHR 0x0A \<or> c = CHR 0x0D)"

text \<open>\<^verbatim>\<open>for si < len(src) && (src[si] == '\n' || src[si] == '\r') { si++ }\<close>, on the
  input from \<open>si\<close> on.\<close>

fun skipNewlines :: "string \<Rightarrow> nat \<Rightarrow> string \<times> nat" where
  "skipNewlines [] si = ([], si)"
| "skipNewlines (c # cs) si = (if isNewline c then skipNewlines cs (Suc si) else (c # cs, si))"

text \<open>
  How the loop of \<^verbatim>\<open>decodeQuantum\<close> is left: \<open>Break dbuf rest si err\<close> goes on to the
  conversion with the sextets read (\<^verbatim>\<open>dlen\<close> is their number), the input left, the
  offset and the pending error (trailing garbage); \<open>Return rest si err\<close> is an early
  \<^verbatim>\<open>return si, 0, err\<close>.
\<close>

datatype loopExit =
    Break "byte list" string nat "error option"
  | Return string nat "error option"

text \<open>After the padding: skip newlines; anything left is trailing garbage.\<close>

definition trailing :: "byte list \<Rightarrow> string \<Rightarrow> nat \<Rightarrow> loopExit" where
  "trailing dbuf src si =
     (case skipNewlines src si of
        (rest, si') \<Rightarrow>
          Break dbuf rest si' (if rest \<noteq> [] then Some (CorruptInputError si') else None))"

text \<open>The loop \<^verbatim>\<open>for j := 0; j < len(dbuf); j++\<close>; \<open>j\<close> is the number of sextets
  in \<open>dbuf\<close>, the second argument is the input from offset \<open>si\<close> on.\<close>

fun quantumLoop :: "byte list \<Rightarrow> string \<Rightarrow> nat \<Rightarrow> loopExit" where
  "quantumLoop dbuf [] si =
     (if 4 \<le> length dbuf then Break dbuf [] si None
      else if length dbuf = 0 then Return [] si None
      else Return [] si (Some (CorruptInputError (si - length dbuf))))"
| "quantumLoop dbuf (c # cs) si =
     (if 4 \<le> length dbuf then Break dbuf (c # cs) si None
      else if decodeMap c \<noteq> 0xFF then quantumLoop (dbuf @ [decodeMap c]) cs (Suc si)
      else if isNewline c then quantumLoop dbuf cs (Suc si)
      else if c \<noteq> padChar then Return cs (Suc si) (Some (CorruptInputError si))
      else if length dbuf < 2 then Return cs (Suc si) (Some (CorruptInputError si))
      else if length dbuf = 2 then
        (case skipNewlines cs (Suc si) of
           ([], si2) \<Rightarrow> Return [] si2 (Some (CorruptInputError si2))
         | (c2 # cs2, si2) \<Rightarrow>
             if c2 \<noteq> padChar
             then Return (c2 # cs2) si2 (Some (CorruptInputError (si2 - 1)))
             else trailing dbuf cs2 (Suc si2))
      else trailing dbuf cs (Suc si))"

text \<open>The conversion of four sextets into three bytes, of which \<^verbatim>\<open>dlen - 1\<close> are
  written.\<close>

definition quantumBytes :: "byte list \<Rightarrow> byte list" where
  "quantumBytes dbuf =
     (let d = map ucast (dbuf @ replicate (4 - length dbuf) 0) :: 64 word list;
          val = push_bit 18 (d ! 0) OR push_bit 12 (d ! 1) OR push_bit 6 (d ! 2) OR (d ! 3)
      in take (length dbuf - 1) [ucast (drop_bit 16 val), ucast (drop_bit 8 val), ucast val])"

text \<open>\<^verbatim>\<open>decodeQuantum\<close>: the input left, the new offset, the bytes written, the error.\<close>

definition decodeQuantum :: "string \<Rightarrow> nat \<Rightarrow> string \<times> nat \<times> byte list \<times> error option" where
  "decodeQuantum src si =
     (case quantumLoop [] src si of
        Return rest nsi err \<Rightarrow> (rest, nsi, [], err)
      | Break dbuf rest nsi err \<Rightarrow> (rest, nsi, quantumBytes dbuf, err))"

lemma skipNewlines_length:
  "skipNewlines src si = (rest, si') \<Longrightarrow> length rest \<le> length src"
  by (induction src si rule: skipNewlines.induct) (auto split: if_splits)

lemma quantumLoop_Break_length:
  "quantumLoop dbuf src si = Break d rest nsi err \<Longrightarrow> length dbuf \<le> 4 \<Longrightarrow>
     length rest + 4 \<le> length src + length dbuf \<and> 2 \<le> length d \<and> length d \<le> 4"
proof (induction dbuf src si rule: quantumLoop.induct)
  case (1 dbuf si)
  then show ?case by (auto split: if_splits)
next
  case (2 dbuf c cs si)
  show ?case
  proof (cases "4 \<le> length dbuf")
    case True
    with 2 show ?thesis by auto
  next
    case False
    then show ?thesis
      using 2
      by (auto simp: trailing_def split: if_splits prod.splits list.splits
               dest!: skipNewlines_length)
  qed
qed

lemma quantumLoop_Return_length:
  "quantumLoop dbuf src si = Return rest nsi None \<Longrightarrow> rest = []"
  by (induction dbuf src si rule: quantumLoop.induct)
     (auto simp: trailing_def split: if_splits prod.splits list.splits)

lemma decodeQuantum_shorter:
  assumes "decodeQuantum src si = (rest, nsi, bs, None)" and "src \<noteq> []"
  shows "length rest < length src"
proof (cases "quantumLoop [] src si")
  case (Break d r n e)
  with assms(1) have "rest = r" by (simp add: decodeQuantum_def)
  with quantumLoop_Break_length [OF Break] show ?thesis by simp
next
  case (Return r n e)
  with assms(1) have "rest = r" "e = None" by (simp_all add: decodeQuantum_def)
  with quantumLoop_Return_length Return have "rest = []" by simp
  with assms(2) show ?thesis by simp
qed

text \<open>The loop \<^verbatim>\<open>for si < len(src)\<close> of \<^verbatim>\<open>Decode\<close>: the bytes written and the error.\<close>

function Decode_from :: "string \<Rightarrow> nat \<Rightarrow> byte list \<times> error option" where
  "Decode_from [] si = ([], None)"
| "Decode_from (c # cs) si =
     (case decodeQuantum (c # cs) si of
        (rest, nsi, bs, Some err) \<Rightarrow> (bs, Some err)
      | (rest, nsi, bs, None) \<Rightarrow>
          (case Decode_from rest nsi of (bs2, err) \<Rightarrow> (bs @ bs2, err)))"
  by pat_completeness auto

termination
proof (relation "measure (\<lambda>(src, si). length src)")
  show "wf (measure (\<lambda>(src, si). length src))" by simp
next
  fix c cs si rest y nsi z bs err
  assume "(rest, y) = decodeQuantum (c # cs) si" "(nsi, z) = y" "(bs, err) = z" "err = None"
  then have "decodeQuantum (c # cs) si = (rest, nsi, bs, None)" by (metis)
  from decodeQuantum_shorter [OF this]
  show "((rest, nsi), c # cs, si) \<in> measure (\<lambda>(src, si). length src)" by simp
qed

definition Decode :: "string \<Rightarrow> byte list \<times> error option" where
  "Decode src = Decode_from src 0"

definition DecodedLen :: "nat \<Rightarrow> nat" where
  "DecodedLen n = n div 4 * 3"

text \<open>
  \<^verbatim>\<open>dbuf := make([]byte, enc.DecodedLen(len(s))); n, err := enc.Decode(dbuf, []byte(s));
  return dbuf[:n], err\<close>: the zeroed buffer with the decoded bytes written over its start.
\<close>

definition DecodeString :: "string \<Rightarrow> slice \<times> error option" where
  "DecodeString s =
     (let dbuf = replicate (DecodedLen (length s)) 0 in
      case Decode s of
        (out, err) \<Rightarrow> (\<lparr>array = out @ drop (length out) dbuf, len = length out\<rparr>, err))"

section \<open>The public key\<close>

record PubKey =
  Key :: "byte list"
  ID :: string
  encoded :: string

definition String :: "PubKey \<Rightarrow> string" where
  "String pk = encoded pk"

text \<open>\<^verbatim>\<open>pka := [32]byte{}; copy(pka[:], pk[0:32])\<close>: the slice expression comes first and
  may panic.\<close>

definition NewPubKey :: "string \<Rightarrow> string \<Rightarrow> PubKey result" where
  "NewPubKey encodedKey keyID =
     (case DecodeString encodedKey of
        (pk, Some err) \<Rightarrow> Err (WrapError ''failed to decode public key: '' err)
      | (pk, None) \<Rightarrow>
          (case slice_to pk 32 of
             Panic p \<Rightarrow> Panic p
           | Err e \<Rightarrow> Err e
           | Ok pk32 \<Rightarrow>
               Ok \<lparr>Key = copy (replicate 32 0) pk32, ID = keyID, encoded = encodedKey\<rparr>))"

section \<open>The api client\<close>

text \<open>
  The body of a request, as \<^verbatim>\<open>json.Marshal\<close> lays it out for \<^verbatim>\<open>SecretPayload\<close>: the
  fields in the order of the struct, each under the name of its \<^verbatim>\<open>json\<close> tag. The
  escaping of the characters of a string is not modelled.
\<close>

datatype jvalue = JString string | JInts "int list"

type_synonym jobject = "(string \<times> jvalue) list"

text \<open>A request handed to the client: \<open>RESTRequest host method path body\<close> or
  \<open>GraphQLRequest host query\<close>.\<close>

datatype request =
    RESTRequest string string string "jobject option"
  | GraphQLRequest string string

text \<open>The anonymous struct of \<^verbatim>\<open>getPubKey\<close>, as \<^verbatim>\<open>client.REST\<close> leaves it.\<close>

record keyResult =
  result_Key :: string
  result_ID :: string

text \<open>The value type of \<^verbatim>\<open>graphqlResult\<close> is a pointer to this struct.\<close>

record node =
  DatabaseID :: int

text \<open>
  Modelled from the spec: \<^verbatim>\<open>api.Client\<close> with its methods \<^verbatim>\<open>REST\<close> and \<^verbatim>\<open>GraphQL\<close>
  (package \<^verbatim>\<open>api\<close>), the transport collaborator of section 6 of the specification. The
  remote side is outside the program, so a client is given by its answers: the error it
  returns and the value it decodes into \<^verbatim>\<open>data\<close>, which may depend on every request made
  before (the list of the requests sent so far is the state that is threaded through the
  functions). For \<^verbatim>\<open>GraphQL\<close> the value is the map \<^verbatim>\<open>graphqlResult\<close>: \<open>None\<close> at a name is
  the nil pointer that Go's map gives for a missing key (or holds for a \<^verbatim>\<open>null\<close> entry).
\<close>

record Client =
  REST_reply :: "request list \<Rightarrow> string \<Rightarrow> string \<Rightarrow> string \<Rightarrow> jobject option
                   \<Rightarrow> error option \<times> keyResult"
  GraphQL_reply :: "request list \<Rightarrow> string \<Rightarrow> string \<Rightarrow> error option \<times> (string \<rightharpoonup> node)"

definition REST ::
  "Client \<Rightarrow> string \<Rightarrow> string \<Rightarrow> string \<Rightarrow> jobject option \<Rightarrow> request list
     \<Rightarrow> (error option \<times> keyResult) \<times> request list" where
  "REST client host method path body sent =
     (REST_reply client sent host method path body, sent @ [RESTRequest host method path body])"

definition GraphQL ::
  "Client \<Rightarrow> string \<Rightarrow> string \<Rightarrow> request list
     \<Rightarrow> (error option \<times> (string \<rightharpoonup> node)) \<times> request list" where
  "GraphQL client host query sent =
     (GraphQL_reply client sent host query, sent @ [GraphQLRequest host query])"

text \<open>Modelled from the spec: \<^verbatim>\<open>ghrepo.Interface\<close> (package \<^verbatim>\<open>ghrepo\<close>), a repository
  with its host and its full name, the \<open>Repository(repoFullName)\<close> scope.\<close>

record Repository =
  RepoHost :: string
  FullName :: string

section \<open>Fetching the public key\<close>

definition getPubKey ::
  "Client \<Rightarrow> string \<Rightarrow> string \<Rightarrow> request list \<Rightarrow> PubKey result \<times> request list" where
  "getPubKey client host path sent =
     (case REST client host ''GET'' path None sent of
        ((Some err, result), sent') \<Rightarrow> (Err err, sent')
      | ((None, result), sent') \<Rightarrow>
          if result_Key result = []
          then (Err (ErrorString (''failed to find public key at '' @ host @ ''/'' @ path)), sent')
          else (NewPubKey (result_Key result) (result_ID result), sent'))"

definition getOrgPublicKey ::
  "Client \<Rightarrow> string \<Rightarrow> string \<Rightarrow> request list \<Rightarrow> PubKey result \<times> request list" where
  "getOrgPublicKey client host orgName sent =
     getPubKey client host (''orgs/'' @ orgName @ ''/actions/secrets/public-key'') sent"

definition getRepoPubKey ::
  "Client \<Rightarrow> Repository \<Rightarrow> request list \<Rightarrow> PubKey result \<times> request list" where
  "getRepoPubKey client repo sent =
     getPubKey client (RepoHost repo)
       (''repos/'' @ FullName repo @ ''/actions/secrets/public-key'') sent"

section \<open>Writing the secret\<close>

text \<open>Modelled from the spec: \<^verbatim>\<open>CreateOptions\<close> (declared beside the command), of which
  the source reads these four fields, and the constant \<^verbatim>\<open>visSelected\<close>, the visibility
  "selected".\<close>

record CreateOptions =
  SecretName :: string
  OrgName :: string
  Visibility :: string
  RepositoryNames :: "string list"

definition visSelected :: string where
  "visSelected = ''selected''"

record SecretPayload =
  EncryptedValue :: string
  Visibility :: string
  Repositories :: "int list"
  KeyID :: string

text \<open>
  \<^verbatim>\<open>json.Marshal(payload)\<close>: \<^verbatim>\<open>visibility\<close> and \<^verbatim>\<open>selected_repository_ids\<close> carry
  \<^verbatim>\<open>omitempty\<close> and are left out when the string is empty and when the slice is nil or
  empty. Marshalling strings and integers never fails, so the error is always nil.
\<close>

definition Marshal :: "SecretPayload \<Rightarrow> jobject \<times> error option" where
  "Marshal payload =
     ([(''encrypted_value'', JString (EncryptedValue payload))]
      @ (if SecretPayload.Visibility payload = [] then []
         else [(''visibility'', JString (SecretPayload.Visibility payload))])
      @ (if Repositories payload = [] then []
         else [(''selected_repository_ids'', JInts (Repositories payload))])
      @ [(''key_id'', JString (KeyID payload))],
      None)"

definition putSecret ::
  "Client \<Rightarrow> string \<Rightarrow> string \<Rightarrow> SecretPayload \<Rightarrow> request list \<Rightarrow> unit result \<times> request list" where
  "putSecret client host path payload sent =
     (case Marshal payload of
        (payloadBytes, Some err) \<Rightarrow> (Err (WrapError ''failed to serialize: '' err), sent)
      | (payloadBytes, None) \<Rightarrow>
          (case REST client host ''PUT'' path (Some payloadBytes) sent of
             ((Some err, result), sent') \<Rightarrow> (Err err, sent')
           | ((None, result), sent') \<Rightarrow> (Ok (), sent')))"

definition putRepoSecret ::
  "Client \<Rightarrow> PubKey \<Rightarrow> Repository \<Rightarrow> string \<Rightarrow> string \<Rightarrow> request list
     \<Rightarrow> unit result \<times> request list" where
  "putRepoSecret client pk repo secretName eValue sent =
     (let payload = \<lparr>EncryptedValue = eValue, Visibility = [], Repositories = [], KeyID = ID pk\<rparr>;
          path = ''repos/'' @ FullName repo @ ''/actions/secrets/'' @ secretName
      in putSecret client (RepoHost repo) path payload)
     sent"

section \<open>Resolving repository names\<close>

definition tab :: string where
  "tab = [CHR 0x09]"

definition newline :: string where
  "newline = [CHR 0x0A]"

text \<open>
  The sub-query of one repository. \<open>Quote\<close> is what the verb \<^verbatim>\<open>%q\<close> prints for a string
  (\<^verbatim>\<open>strconv.Quote\<close>); it rests on Unicode tables of Go's library and is a parameter of
  the model.
\<close>

definition repoQuery :: "(string \<Rightarrow> string) \<Rightarrow> string \<Rightarrow> string \<Rightarrow> string" where
  "repoQuery Quote orgName repoName =
     newline @ tab @ tab @ tab @ repoName @ '': repository(owner: '' @ Quote orgName
       @ '', name :'' @ Quote repoName @ '') {''
     @ newline @ tab @ tab @ tab @ tab @ ''databaseId''
     @ newline @ tab @ tab @ tab @ ''}''
     @ newline @ tab @ tab"

definition mapQuery :: "(string \<Rightarrow> string) \<Rightarrow> string \<Rightarrow> string list \<Rightarrow> string" where
  "mapQuery Quote orgName repositoryNames =
     ''query MapRepositoryNames { ''
     @ concat (map (repoQuery Quote orgName) repositoryNames) @ '' }''"

text \<open>
  The loop over \<^verbatim>\<open>gqlErr.Errors\<close>: \<open>Some r\<close> when it returns \<open>r\<close> (or panics at
  \<^verbatim>\<open>ge.Path[0]\<close>), \<open>None\<close> when it runs to its end.
\<close>

fun scanErrors :: "string \<Rightarrow> GraphQLError list \<Rightarrow> int list result option" where
  "scanErrors orgName [] = None"
| "scanErrors orgName (ge # ges) =
     (if Type ge = ''NOT_FOUND''
      then (case Path ge of
              [] \<Rightarrow> Some (Panic (IndexOutOfRange 0 0))
            | name # rest \<Rightarrow> Some (Err (ErrorString (''could not find '' @ orgName @ ''/'' @ name))))
      else scanErrors orgName ges)"

text \<open>The loop that fills \<^verbatim>\<open>result\<close>: \<^verbatim>\<open>graphqlResult[repoName].DatabaseID\<close>
  dereferences the pointer found in the map.\<close>

fun lookupIDs :: "(string \<rightharpoonup> node) \<Rightarrow> string list \<Rightarrow> int list \<Rightarrow> int list result" where
  "lookupIDs graphqlResult [] result = Ok result"
| "lookupIDs graphqlResult (repoName # names) result =
     (case graphqlResult repoName of
        None \<Rightarrow> Panic NilPointerDereference
      | Some nd \<Rightarrow> lookupIDs graphqlResult names (result @ [DatabaseID nd]))"

definition mapRepoNameToID ::
  "(string \<Rightarrow> string) \<Rightarrow> Client \<Rightarrow> string \<Rightarrow> string \<Rightarrow> string list \<Rightarrow> request list
     \<Rightarrow> int list result \<times> request list" where
  "mapRepoNameToID Quote client host orgName repositoryNames sent =
     (case GraphQL client host (mapQuery Quote orgName repositoryNames) sent of
        ((err, graphqlResult), sent') \<Rightarrow>
          (case (case err of
                   Some (GraphQLErrorResponse errors) \<Rightarrow> scanErrors orgName errors
                 | _ \<Rightarrow> None) of
             Some r \<Rightarrow> (r, sent')
           | None \<Rightarrow>
               (case err of
                  Some e \<Rightarrow> (Err (WrapError ''failed to look up repositories: '' e), sent')
                | None \<Rightarrow> (lookupIDs graphqlResult repositoryNames [], sent'))))"

text \<open>The verb \<^verbatim>\<open>%v\<close> on a slice of strings: the elements between brackets, separated by
  a space.\<close>

fun joinSpace :: "string list \<Rightarrow> string" where
  "joinSpace [] = []"
| "joinSpace [x] = x"
| "joinSpace (x # y # ys) = x @ '' '' @ joinSpace (y # ys)"

definition fmt_v :: "string list \<Rightarrow> string" where
  "fmt_v xs = ''['' @ joinSpace xs @ '']''"

definition putOrgSecret ::
  "(string \<Rightarrow> string) \<Rightarrow> Client \<Rightarrow> PubKey \<Rightarrow> string \<Rightarrow> CreateOptions \<Rightarrow> string \<Rightarrow> request list
     \<Rightarrow> unit result \<times> request list" where
  "putOrgSecret Quote client pk host opts eValue sent =
     (let secretName = SecretName opts;
          orgName = OrgName opts;
          visibility = CreateOptions.Visibility opts
      in case (if orgName \<noteq> [] \<and> visibility = visSelected
               then mapRepoNameToID Quote client host orgName (RepositoryNames opts) sent
               else (Ok [], sent)) of
           (Panic p, sent') \<Rightarrow> (Panic p, sent')
         | (Err err, sent') \<Rightarrow>
             (Err (WrapError (''failed to look up IDs for repositories ''
                               @ fmt_v (RepositoryNames opts) @ '': '') err), sent')
         | (Ok repositoryIDs, sent') \<Rightarrow>
             putSecret client host (''orgs/'' @ orgName @ ''/actions/secrets/'' @ secretName)
               \<lparr>EncryptedValue = eValue, Visibility = visibility,
                Repositories = repositoryIDs, KeyID = ID pk\<rparr>
               sent')"

section \<open>The remote store\<close>

text \<open>
  Modelled from the spec: the remote side of \<^verbatim>\<open>client.REST\<close> for the write of a secret
  (sections 4.4 and 6 of the specification), which is no code of \<^verbatim>\<open>http.go\<close>: a \<^verbatim>\<open>PUT\<close>
  creates the secret at its host and path or replaces the one that is there, and answers with no
  body. \<open>transport\<close> gives the failure, if any, that the transport reports for a request
  (section 7); a request that fails leaves the store as it is. \<open>store_of\<close> is the store after
  the requests of a log, \<open>storeClient\<close> the client that talks to this store.
\<close>

definition upsert ::
  "(request \<Rightarrow> error option) \<Rightarrow> (string \<times> string \<rightharpoonup> jobject) \<Rightarrow> request
     \<Rightarrow> (string \<times> string \<rightharpoonup> jobject)" where
  "upsert transport store req =
     (case req of
        RESTRequest host method path (Some body) \<Rightarrow>
          if method = ''PUT'' \<and> transport req = None then store((host, path) \<mapsto> body) else store
      | _ \<Rightarrow> store)"

text \<open>Modelled from the spec: the store that the requests of a log leave behind, starting
  from the empty store.\<close>

definition store_of ::
  "(request \<Rightarrow> error option) \<Rightarrow> request list \<Rightarrow> (string \<times> string \<rightharpoonup> jobject)" where
  "store_of transport sent = foldl (upsert transport) Map.empty sent"

text \<open>Modelled from the spec: the client in front of this store. It answers a request with
  the failure of the transport, if there is one, and with no error otherwise.\<close>

definition storeClient :: "(request \<Rightarrow> error option) \<Rightarrow> Client" where
  "storeClient transport =
     \<lparr>REST_reply = (\<lambda>sent host method path body.
        (transport (RESTRequest host method path body), \<lparr>result_Key = [], result_ID = []\<rparr>)),
      GraphQL_reply = (\<lambda>sent host query. (transport (GraphQLRequest host query), Map.empty))\<rparr>"

section \<open>Example inputs\<close>

text \<open>
  Concrete keys, clients and options, on which the functions are evaluated below.
  \<open>plainQuote\<close> is \<^verbatim>\<open>%q\<close> on a string with nothing to escape. \<open>replyClient\<close> answers every
  request the same way. \<open>key36\<close> encodes 36 bytes, \<open>key31\<close> encodes the 31 bytes 1, 2, ..., 31.
\<close>

definition plainQuote :: "string \<Rightarrow> string" where
  "plainQuote s = [CHR 0x22] @ s @ [CHR 0x22]"

definition replyClient :: "error option \<Rightarrow> keyResult \<Rightarrow> error option \<Rightarrow> (string \<rightharpoonup> node) \<Rightarrow> Client" where
  "replyClient restErr key gqlErr graphqlResult =
     \<lparr>REST_reply = (\<lambda>sent host method path body. (restErr, key)),
      GraphQL_reply = (\<lambda>sent host query. (gqlErr, graphqlResult))\<rparr>"

definition noKey :: keyResult where
  "noKey = \<lparr>result_Key = [], result_ID = []\<rparr>"

definition notFound :: "string list \<Rightarrow> GraphQLError" where
  "notFound path = \<lparr>Type = ''NOT_FOUND'', Path = path, Message = ''Could not resolve to a Repository''\<rparr>"

definition forbidden :: "string list \<Rightarrow> GraphQLError" where
  "forbidden path = \<lparr>Type = ''FORBIDDEN'', Path = path, Message = ''Resource not accessible''\<rparr>"

definition idsClient :: Client where
  "idsClient = replyClient None noKey None
     (map_of [(''b'', \<lparr>DatabaseID = 20\<rparr>), (''a'', \<lparr>DatabaseID = 10\<rparr>)])"

definition notFoundClient :: "GraphQLError list \<Rightarrow> Client" where
  "notFoundClient errors = replyClient None noKey (Some (GraphQLErrorResponse errors)) Map.empty"

definition pk1 :: PubKey where
  "pk1 = \<lparr>Key = replicate 32 0, ID = ''kid'', encoded = ''AAAAAAAAAAAAAAAAAAAAAAAAAAAAAAAAAAAAAAAAAAA=''\<rparr>"

definition selectedOpts :: "string \<Rightarrow> string \<Rightarrow> CreateOptions" where
  "selectedOpts org vis = \<lparr>SecretName = ''TOKEN'', OrgName = org, Visibility = vis, RepositoryNames = [''a'', ''b'']\<rparr>"

definition key36 :: string where
  "key36 = ''EREREREREREREREREREREREREREREREREREREREREREiIiIi''"

definition key31 :: string where
  "key31 = ''MzMzMzMzMzMzMzMzMzMzMzMzMzMzMzMzMzMzMzMzMw==''"

section \<open>The decoder stays inside its buffer\<close>

text \<open>
  Every quantum that writes bytes has read at least four characters, so \<^verbatim>\<open>Decode\<close> never writes
  more than \<^verbatim>\<open>DecodedLen(len(s))\<close> bytes: the slice that \<^verbatim>\<open>DecodeString\<close> returns is the start of
  its buffer, and the buffer is zero behind it.
\<close>

lemma quantumBytes_length: "length (quantumBytes d) = min 3 (length d - 1)"
  by (simp add: quantumBytes_def Let_def)

lemma decodeQuantum_cases:
  assumes "decodeQuantum src si = (rest, nsi, bs, e)"
  shows "(bs = [] \<and> (e = None \<longrightarrow> rest = [])) \<or> (length bs \<le> 3 \<and> length rest + 4 \<le> length src)"
proof (cases "quantumLoop [] src si")
  case (Break d r n e')
  with assms have "rest = r" "bs = quantumBytes d" by (simp_all add: decodeQuantum_def)
  with quantumLoop_Break_length [OF Break] show ?thesis
    by (simp add: quantumBytes_length)
next
  case (Return r n e')
  with assms have *: "rest = r" "e = e'" "bs = []" by (simp_all add: decodeQuantum_def)
  show ?thesis
  proof (cases e')
    case None
    with Return quantumLoop_Return_length have "r = []" by simp
    with * show ?thesis by simp
  next
    case (Some a)
    with * show ?thesis by simp
  qed
qed

lemma div4_step:
  fixes r n :: nat
  assumes "r + 4 \<le> n"
  shows "r div 4 * 3 + 3 \<le> n div 4 * 3"
proof -
  from assms have "(r + 4) div 4 \<le> n div 4" by (rule div_le_mono)
  then have "r div 4 + 1 \<le> n div 4" by simp
  then show ?thesis by simp
qed

lemma Decode_from_length:
  "Decode_from src si = (out, err) \<Longrightarrow> length out \<le> length src div 4 * 3"
proof (induction src si arbitrary: out err rule: Decode_from.induct)
  case (1 si)
  then show ?case by simp
next
  case (2 c cs si)
  obtain rest nsi bs e where dq: "decodeQuantum (c # cs) si = (rest, nsi, bs, e)"
    by (metis prod_cases4)
  from decodeQuantum_cases [OF dq]
  have shape: "(bs = [] \<and> (e = None \<longrightarrow> rest = [])) \<or> (length bs \<le> 3 \<and> length rest + 4 \<le> length (c # cs))" .
  show ?case
  proof (cases e)
    case (Some a)
    with dq 2(2) have "out = bs" by simp
    with shape div4_step [of "length rest" "length (c # cs)"] show ?thesis by auto
  next
    case None
    obtain bs2 e2 where rec: "Decode_from rest nsi = (bs2, e2)" by (metis surj_pair)
    from 2(1) [OF dq [symmetric] refl refl None rec]
    have ih: "length bs2 \<le> length rest div 4 * 3" .
    from None dq rec 2(2) have out: "out = bs @ bs2" by simp
    from shape show ?thesis
    proof
      assume "bs = [] \<and> (e = None \<longrightarrow> rest = [])"
      with None ih out show ?thesis by simp
    next
      assume "length bs \<le> 3 \<and> length rest + 4 \<le> length (c # cs)"
      with ih out div4_step [of "length rest" "length (c # cs)"] show ?thesis by simp
    qed
  qed
qed

lemma DecodeString_slice:
  assumes "DecodeString s = (pk, err)"
  shows "len pk \<le> cap pk" and "cap pk = length s div 4 * 3"
    and "array pk = elems pk @ replicate (cap pk - len pk) 0"
proof -
  obtain out where d: "Decode s = (out, err)" and pk: "pk = \<lparr>array = out @ drop (length out) (replicate (length s div 4 * 3) 0), len = length out\<rparr>"
    using assms by (auto simp: DecodeString_def DecodedLen_def Let_def split: prod.splits)
  from d have le: "length out \<le> length s div 4 * 3"
    by (simp add: Decode_def Decode_from_length)
  from pk le show "len pk \<le> cap pk" by (simp add: cap_def)
  from pk le show c: "cap pk = length s div 4 * 3" by (simp add: cap_def)
  from pk le show "array pk = elems pk @ replicate (cap pk - len pk) 0"
    by (simp add: cap_def elems_def)
qed

section \<open>Properties of \<^verbatim>\<open>NewPubKey\<close>\<close>

lemma NewPubKey_Ok:
  assumes "DecodeString encodedKey = (pk, None)" and "32 \<le> cap pk"
  shows "NewPubKey encodedKey keyID = Ok \<lparr>Key = take 32 (array pk), ID = keyID, encoded = encodedKey\<rparr>"
  using assms by (simp add: NewPubKey_def slice_to_def copy_def elems_def cap_def)

lemma NewPubKey_Panic:
  assumes "DecodeString encodedKey = (pk, None)" and "cap pk < 32"
  shows "NewPubKey encodedKey keyID = Panic (SliceBounds 32 (cap pk))"
  using assms by (simp add: NewPubKey_def slice_to_def)

lemma DecodeString_key31:
  "DecodeString key31 = (\<lparr>array = replicate 31 0x33 @ [0, 0], len = 31\<rparr>, None)"
  by code_simp

lemma DecodeString_key36:
  "DecodeString key36 = (\<lparr>array = replicate 32 0x11 @ replicate 4 0x22, len = 36\<rparr>, None)"
  by code_simp

text \<open>
  A valid input that decodes to fewer than 32 bytes: the capacity of the decoded slice decides.
  From 44 characters on the key is the decoded bytes followed by zeros; below, the slice
  expression panics.
\<close>

lemma NewPubKey_short_key:
  assumes "DecodeString encodedKey = (pk, None)" and "len pk < 32"
  shows "NewPubKey encodedKey keyID =
     (if 44 \<le> length encodedKey
      then Ok \<lparr>Key = elems pk @ replicate (32 - len pk) 0, ID = keyID, encoded = encodedKey\<rparr>
      else Panic (SliceBounds 32 (length encodedKey div 4 * 3)))"
proof (cases "44 \<le> length encodedKey")
  case True
  then have "11 \<le> length encodedKey div 4" by simp
  with DecodeString_slice(2) [OF assms(1)] have c: "32 \<le> cap pk" by simp
  from DecodeString_slice(1) [OF assms(1)] have n: "length (elems pk) = len pk"
    by (simp add: elems_def cap_def)
  have "take 32 (array pk) = take 32 (elems pk @ replicate (cap pk - len pk) 0)"
    using DecodeString_slice(3) [OF assms(1)] by simp
  also have "\<dots> = elems pk @ replicate (32 - len pk) 0"
    using n assms(2) c by (simp add: min_def)
  finally show ?thesis using NewPubKey_Ok [OF assms(1) c, of keyID] True by simp
next
  case False
  then have "length encodedKey div 4 < 11" by simp
  with DecodeString_slice(2) [OF assms(1)] have c: "cap pk < 32" by simp
  from NewPubKey_Panic [OF assms(1) c, of keyID] DecodeString_slice(2) [OF assms(1)] False
  show ?thesis by simp
qed

lemma NewPubKey_short_key_example:
  "DecodeString key31 = (\<lparr>array = replicate 31 0x33 @ [0, 0], len = 31\<rparr>, None)
   \<and> NewPubKey key31 ''kid'' = Ok \<lparr>Key = replicate 31 0x33 @ [0], ID = ''kid'', encoded = key31\<rparr>"
proof -
  have l: "length key31 = 44" by (simp add: key31_def)
  from NewPubKey_short_key [OF DecodeString_key31, of "''kid''"] l DecodeString_key31
  show ?thesis by (simp add: elems_def)
qed

section \<open>Properties of \<^verbatim>\<open>mapRepoNameToID\<close>\<close>

lemma scanErrors_find:
  "scanErrors orgName errors =
     (case find (\<lambda>ge. Type ge = ''NOT_FOUND'') errors of
        None \<Rightarrow> None
      | Some ge \<Rightarrow>
          (case Path ge of
             [] \<Rightarrow> Some (Panic (IndexOutOfRange 0 0))
           | name # rest \<Rightarrow> Some (Err (ErrorString (''could not find '' @ orgName @ ''/'' @ name)))))"
  by (induction errors) simp_all

lemma lookupIDs_eq:
  "lookupIDs m names acc =
     (if \<forall>n \<in> set names. m n \<noteq> None
      then Ok (acc @ map (\<lambda>n. DatabaseID (the (m n))) names)
      else Panic NilPointerDereference)"
  by (induction names arbitrary: acc) (auto split: option.splits)

lemma mapRepoNameToID_sent:
  "snd (mapRepoNameToID Quote client host orgName names sent) =
     sent @ [GraphQLRequest host (mapQuery Quote orgName names)]"
  by (simp add: mapRepoNameToID_def GraphQL_def split: prod.splits option.splits error.splits)

lemma mapRepoNameToID_no_error:
  assumes "GraphQL_reply client sent host (mapQuery Quote orgName names) = (None, m)"
  shows "mapRepoNameToID Quote client host orgName names sent =
     (lookupIDs m names [], sent @ [GraphQLRequest host (mapQuery Quote orgName names)])"
  using assms by (simp add: mapRepoNameToID_def GraphQL_def)

lemma mapRepoNameToID_Ok_no_error:
  assumes "mapRepoNameToID Quote client host orgName names sent = (Ok ids, sent')"
  shows "fst (GraphQL_reply client sent host (mapQuery Quote orgName names)) = None"
proof (cases "GraphQL_reply client sent host (mapQuery Quote orgName names)")
  case (Pair err m)
  show ?thesis
  proof (cases err)
    case None
    with Pair show ?thesis by simp
  next
    case (Some e)
    with Pair assms have False
      by (auto simp: mapRepoNameToID_def GraphQL_def scanErrors_find
               split: error.splits option.splits list.splits)
    then show ?thesis ..
  qed
qed

text \<open>
  The first \<^verbatim>\<open>NOT_FOUND\<close> entry of the error list decides; when its path has a first element,
  that name is reported and the generic error is not.
\<close>

lemma mapRepoNameToID_not_found:
  assumes "GraphQL_reply client sent host (mapQuery Quote orgName repositoryNames) =
             (Some (GraphQLErrorResponse errors), graphqlResult)"
    and "find (\<lambda>ge. Type ge = ''NOT_FOUND'') errors = Some ge"
    and "Path ge = name # rest"
  shows "mapRepoNameToID Quote client host orgName repositoryNames sent =
     (Err (ErrorString (''could not find '' @ orgName @ ''/'' @ name)),
      sent @ [GraphQLRequest host (mapQuery Quote orgName repositoryNames)])"
  using assms by (simp add: mapRepoNameToID_def GraphQL_def scanErrors_find)

lemma mapRepoNameToID_not_found_example:
  "mapRepoNameToID plainQuote (notFoundClient [forbidden [''a''], notFound [''b''], notFound [''c'']])
      ''github.com'' ''org'' [''a'', ''b'', ''c''] [] =
     (Err (ErrorString ''could not find org/b''),
      [GraphQLRequest ''github.com'' (mapQuery plainQuote ''org'' [''a'', ''b'', ''c''])])"
proof -
  let ?errors = "[forbidden [''a''], notFound [''b''], notFound [''c'']]"
  have r: "GraphQL_reply (notFoundClient ?errors) [] ''github.com''
             (mapQuery plainQuote ''org'' [''a'', ''b'', ''c'']) =
           (Some (GraphQLErrorResponse ?errors), Map.empty)"
    by (simp add: notFoundClient_def replyClient_def)
  have f: "find (\<lambda>ge. Type ge = ''NOT_FOUND'') ?errors = Some (notFound [''b''])"
    by (simp add: notFound_def forbidden_def)
  have p: "Path (notFound [''b'']) = ''b'' # []" by (simp add: notFound_def)
  from mapRepoNameToID_not_found [OF r f p] show ?thesis by simp
qed

text \<open>With no error from the client, a list is returned exactly when every requested name has
  an entry in the response map.\<close>

lemma mapRepoNameToID_missing_entry:
  assumes "GraphQL_reply client sent host (mapQuery Quote orgName repositoryNames) = (None, graphqlResult)"
  shows "((\<exists>ids. fst (mapRepoNameToID Quote client host orgName repositoryNames sent) = Ok ids)
            \<longleftrightarrow> (\<forall>n \<in> set repositoryNames. graphqlResult n \<noteq> None))
     \<and> ((\<exists>n \<in> set repositoryNames. graphqlResult n = None) \<longrightarrow>
            fst (mapRepoNameToID Quote client host orgName repositoryNames sent) = Panic NilPointerDereference)"
  using mapRepoNameToID_no_error [OF assms] by (auto simp: lookupIDs_eq)

lemma mapRepoNameToID_missing_entry_example:
  "fst (mapRepoNameToID plainQuote idsClient ''github.com'' ''org'' [''a'', ''c''] [])
     = Panic NilPointerDereference
   \<and> fst (mapRepoNameToID plainQuote idsClient ''github.com'' ''org'' [''b'', ''a''] []) = Ok [20, 10]"
proof -
  let ?m = "map_of [(''b'', \<lparr>DatabaseID = 20\<rparr>), (''a'', \<lparr>DatabaseID = 10\<rparr>)]"
  have r: "GraphQL_reply idsClient [] ''github.com'' (mapQuery plainQuote ''org'' [''a'', ''c'']) = (None, ?m)"
    by (simp add: idsClient_def replyClient_def)
  have m: "\<exists>n \<in> set [''a'', ''c'']. ?m n = None" by simp
  have o: "fst (mapRepoNameToID plainQuote idsClient ''github.com'' ''org'' [''b'', ''a''] []) = Ok [20, 10]"
    by (simp add: mapRepoNameToID_def GraphQL_def idsClient_def replyClient_def)
  from mapRepoNameToID_missing_entry [OF r] m o show ?thesis by blast
qed

section \<open>Properties of the write\<close>

lemma putSecret_eq:
  "putSecret client host path payload sent =
     ((case fst (REST_reply client sent host ''PUT'' path (Some (fst (Marshal payload)))) of
         None \<Rightarrow> Ok () | Some err \<Rightarrow> Err err),
      sent @ [RESTRequest host ''PUT'' path (Some (fst (Marshal payload)))])"
  by (simp add: putSecret_def REST_def Marshal_def split: prod.splits option.splits)

lemma putOrgSecret_no_lookup:
  assumes "OrgName opts = [] \<or> CreateOptions.Visibility opts \<noteq> visSelected"
  shows "putOrgSecret Quote client pk host opts eValue sent =
     putSecret client host (''orgs/'' @ OrgName opts @ ''/actions/secrets/'' @ SecretName opts)
       \<lparr>EncryptedValue = eValue, Visibility = CreateOptions.Visibility opts,
        Repositories = [], KeyID = ID pk\<rparr> sent"
  using assms by (auto simp: putOrgSecret_def Let_def)

lemma putOrgSecret_lookup:
  assumes "OrgName opts \<noteq> []" and "CreateOptions.Visibility opts = visSelected"
  shows "putOrgSecret Quote client pk host opts eValue sent =
     (case mapRepoNameToID Quote client host (OrgName opts) (RepositoryNames opts) sent of
        (Panic p, sent') \<Rightarrow> (Panic p, sent')
      | (Err err, sent') \<Rightarrow>
          (Err (WrapError (''failed to look up IDs for repositories ''
                            @ fmt_v (RepositoryNames opts) @ '': '') err), sent')
      | (Ok repositoryIDs, sent') \<Rightarrow>
          putSecret client host (''orgs/'' @ OrgName opts @ ''/actions/secrets/'' @ SecretName opts)
            \<lparr>EncryptedValue = eValue, Visibility = visSelected,
             Repositories = repositoryIDs, KeyID = ID pk\<rparr> sent')"
  using assms by (simp add: putOrgSecret_def Let_def)

lemma putOrgSecret_body:
  assumes "RESTRequest h m p (Some body)
             \<in> set (drop (length sent) (snd (putOrgSecret Quote client pk host opts eValue sent)))"
  shows "\<exists>ids. body = fst (Marshal \<lparr>EncryptedValue = eValue, Visibility = CreateOptions.Visibility opts,
                                   Repositories = ids, KeyID = ID pk\<rparr>)
           \<and> (if OrgName opts \<noteq> [] \<and> CreateOptions.Visibility opts = visSelected
               then fst (mapRepoNameToID Quote client host (OrgName opts) (RepositoryNames opts) sent) = Ok ids
               else ids = [])"
proof (cases "OrgName opts \<noteq> [] \<and> CreateOptions.Visibility opts = visSelected")
  case False
  then have "OrgName opts = [] \<or> CreateOptions.Visibility opts \<noteq> visSelected" by auto
  from putOrgSecret_no_lookup [OF this, of Quote client pk host eValue sent] assms False
  show ?thesis by (auto simp: putSecret_eq)
next
  case True
  then have o: "OrgName opts \<noteq> []" and v: "CreateOptions.Visibility opts = visSelected" by simp_all
  obtain r sent' where m: "mapRepoNameToID Quote client host (OrgName opts) (RepositoryNames opts) sent = (r, sent')"
    by (metis surj_pair)
  with mapRepoNameToID_sent [of Quote client host "OrgName opts" "RepositoryNames opts" sent]
  have s: "sent' = sent @ [GraphQLRequest host (mapQuery Quote (OrgName opts) (RepositoryNames opts))]"
    by simp
  show ?thesis
  proof (cases r)
    case (Ok ids)
    with putOrgSecret_lookup [OF o v, of Quote client pk host eValue sent] m s assms v True
    show ?thesis by (auto simp: putSecret_eq)
  next
    case (Err e)
    with putOrgSecret_lookup [OF o v, of Quote client pk host eValue sent] m s assms
    show ?thesis by simp
  next
    case (Panic p')
    with putOrgSecret_lookup [OF o v, of Quote client pk host eValue sent] m s assms
    show ?thesis by simp
  qed
qed

lemma Marshal_fields:
  "map_of (fst (Marshal payload)) ''visibility'' =
     (if SecretPayload.Visibility payload = [] then None
      else Some (JString (SecretPayload.Visibility payload)))"
  "map_of (fst (Marshal payload)) ''selected_repository_ids'' =
     (if Repositories payload = [] then None else Some (JInts (Repositories payload)))"
  by (simp_all add: Marshal_def)

lemma store_of_snoc:
  "store_of transport (sent @ [req]) = upsert transport (store_of transport sent) req"
  by (simp add: store_of_def)

lemma upsert_twice:
  "upsert transport (upsert transport store req) req = upsert transport store req"
  by (auto simp: upsert_def split: request.splits option.splits)

section \<open>The claims\<close>

text \<open>
  Claim C1. Whenever the GraphQL call returns a structured error list with an entry of type
  \<^verbatim>\<open>NOT_FOUND\<close>, \<^verbatim>\<open>mapRepoNameToID\<close> is to fail with the error "could not find orgName/name"
  that names the repository of the first such entry, with no identifier list and instead of the
  generic error. The source returns that error when the path of the entry has a first element,
  but it indexes \<^verbatim>\<open>ge.Path[0]\<close> without looking at the length of the path: for an entry of
  type \<^verbatim>\<open>NOT_FOUND\<close> with an empty path the call panics (index out of range [0] with length
  0) and returns no error.
\<close>

theorem mapRepoNameToID_not_found_no_path:
  "fst (mapRepoNameToID plainQuote (notFoundClient [notFound []]) ''github.com'' ''org'' [''a''] [])
     = Panic (IndexOutOfRange 0 0)"
  by (simp add: mapRepoNameToID_def GraphQL_def notFoundClient_def replyClient_def notFound_def)

text \<open>
  Claim C2. A call of \<^verbatim>\<open>mapRepoNameToID\<close> that succeeds returns one identifier for each
  requested name, in the order of the request: the i-th identifier is the \<^verbatim>\<open>DatabaseID\<close> that
  the response map holds for the i-th name. The response is a Go map, so no order of its
  entries exists that the result could depend on; in the example below the response lists
  \<open>b\<close> before \<open>a\<close>.
\<close>

theorem mapRepoNameToID_order:
  assumes "mapRepoNameToID Quote client host orgName repositoryNames sent = (Ok ids, sent')"
  shows "length ids = length repositoryNames \<and>
     (\<forall>i < length repositoryNames. \<exists>nd.
        snd (GraphQL_reply client sent host (mapQuery Quote orgName repositoryNames))
          (repositoryNames ! i) = Some nd \<and> ids ! i = DatabaseID nd)"
proof -
  obtain m where r: "GraphQL_reply client sent host (mapQuery Quote orgName repositoryNames) = (None, m)"
    using mapRepoNameToID_Ok_no_error [OF assms] by (metis prod.collapse)
  from mapRepoNameToID_no_error [OF r] assms
  have l: "lookupIDs m repositoryNames [] = Ok ids" by simp
  then have all: "\<forall>n \<in> set repositoryNames. m n \<noteq> None"
    and ids: "ids = map (\<lambda>n. DatabaseID (the (m n))) repositoryNames"
    by (auto simp: lookupIDs_eq split: if_splits)
  have "\<exists>nd. m (repositoryNames ! i) = Some nd \<and> ids ! i = DatabaseID nd"
    if "i < length repositoryNames" for i
  proof -
    from that all have "m (repositoryNames ! i) \<noteq> None" by simp
    then obtain nd where "m (repositoryNames ! i) = Some nd" by auto
    with that ids show ?thesis by simp
  qed
  with ids r show ?thesis by simp
qed

text \<open>The names a, b with the identifiers 10 and 20.\<close>

theorem mapRepoNameToID_order_witness:
  "mapRepoNameToID plainQuote idsClient ''github.com'' ''org'' [''a'', ''b''] [] =
     (Ok [10, 20], [GraphQLRequest ''github.com'' (mapQuery plainQuote ''org'' [''a'', ''b''])])
   \<and> length [10, 20 :: int] = length [''a'', ''b'']"
proof -
  have e: "mapRepoNameToID plainQuote idsClient ''github.com'' ''org'' [''a'', ''b''] [] =
     (Ok [10, 20], [GraphQLRequest ''github.com'' (mapQuery plainQuote ''org'' [''a'', ''b''])])"
    by (simp add: mapRepoNameToID_def GraphQL_def idsClient_def replyClient_def)
  from mapRepoNameToID_order [OF e] e show ?thesis by simp
qed

text \<open>
  Claim C3. For a valid base64 input that decodes to fewer than 32 bytes, \<^verbatim>\<open>NewPubKey\<close> is to
  return a key, the decoded bytes followed by zeros, with no error and no crash. The source
  does so for an input of at least 44 characters, but the slice expression \<^verbatim>\<open>pk[0:32]\<close> is
  checked against the capacity of \<^verbatim>\<open>pk\<close>, three bytes for every four characters of the
  input, and the length of \<^verbatim>\<open>pk\<close> is never looked at: the input \<^verbatim>\<open>AAAA\<close> is valid, decodes
  to three bytes, and \<^verbatim>\<open>NewPubKey\<close> panics (slice bounds out of range [:32] with capacity 3).
\<close>

theorem NewPubKey_short_key_panics:
  "DecodeString ''AAAA'' = (\<lparr>array = [0, 0, 0], len = 3\<rparr>, None)
   \<and> NewPubKey ''AAAA'' ''kid'' = Panic (SliceBounds 32 3)"
  by code_simp

text \<open>
  Claim C4. When the GraphQL call reports no error and the response map has no entry for a
  requested name, \<^verbatim>\<open>mapRepoNameToID\<close> is to return normally, with the identifier 0 for that
  name. The map holds pointers, and \<^verbatim>\<open>graphqlResult[repoName].DatabaseID\<close> dereferences the
  pointer it finds without a nil check: with no error and an empty response map, the call for
  the name \<open>a\<close> panics (nil pointer dereference) instead of returning the list of 0.
\<close>

theorem mapRepoNameToID_missing_entry_panics:
  "fst (mapRepoNameToID plainQuote (replyClient None noKey None Map.empty) ''github.com'' ''org'' [''a''] [])
     = Panic NilPointerDereference"
  by (simp add: mapRepoNameToID_def GraphQL_def replyClient_def)

text \<open>
  Claim C5. For a valid base64 input that decodes to at least 32 bytes, \<^verbatim>\<open>NewPubKey\<close>
  returns a key whose \<^verbatim>\<open>Key\<close> is the first 32 decoded bytes, whose \<^verbatim>\<open>ID\<close> is \<open>keyID\<close> and whose
  \<^verbatim>\<open>String()\<close> is the input; for an input that the decoder rejects it returns the decoder's
  error, wrapped, and no key. "Valid" is what \<^verbatim>\<open>base64.StdEncoding.DecodeString\<close> accepts.
\<close>

theorem NewPubKey_decodes:
  "(DecodeString encodedKey = (pk, None) \<and> 32 \<le> len pk \<longrightarrow>
      (\<exists>k. NewPubKey encodedKey keyID = Ok k \<and> Key k = take 32 (elems pk) \<and>
           length (Key k) = 32 \<and> ID k = keyID \<and> String k = encodedKey))
   \<and> (DecodeString encodedKey = (pk, Some err) \<longrightarrow>
      NewPubKey encodedKey keyID = Err (WrapError ''failed to decode public key: '' err))"
proof (intro conjI impI)
  assume a: "DecodeString encodedKey = (pk, None) \<and> 32 \<le> len pk"
  then have d: "DecodeString encodedKey = (pk, None)" and l: "32 \<le> len pk" by simp_all
  from DecodeString_slice(1) [OF d] l have c: "32 \<le> cap pk" by simp
  from l have "take 32 (elems pk) = take 32 (array pk)"
    by (simp add: elems_def min_def)
  moreover from c have "length (take 32 (array pk)) = 32" by (simp add: cap_def)
  ultimately show "\<exists>k. NewPubKey encodedKey keyID = Ok k \<and> Key k = take 32 (elems pk) \<and>
      length (Key k) = 32 \<and> ID k = keyID \<and> String k = encodedKey"
    using NewPubKey_Ok [OF d c, of keyID] by (simp add: String_def)
next
  assume "DecodeString encodedKey = (pk, Some err)"
  then show "NewPubKey encodedKey keyID = Err (WrapError ''failed to decode public key: '' err)"
    by (simp add: NewPubKey_def)
qed

text \<open>A key of 36 bytes, of which the first 32 are kept, and an input that is not base64.\<close>

theorem NewPubKey_decodes_witness:
  "DecodeString key36 = (\<lparr>array = replicate 32 0x11 @ replicate 4 0x22, len = 36\<rparr>, None)
   \<and> NewPubKey key36 ''kid'' = Ok \<lparr>Key = replicate 32 0x11, ID = ''kid'', encoded = key36\<rparr>
   \<and> DecodeString ''!AAA'' = (\<lparr>array = [0, 0, 0], len = 0\<rparr>, Some (CorruptInputError 0))
   \<and> NewPubKey ''!AAA'' ''kid'' = Err (WrapError ''failed to decode public key: '' (CorruptInputError 0))"
proof -
  let ?pk = "\<lparr>array = replicate 32 0x11 @ replicate 4 0x22, len = 36\<rparr>"
  have bad: "DecodeString ''!AAA'' = (\<lparr>array = [0, 0, 0], len = 0\<rparr>, Some (CorruptInputError 0))"
    by code_simp
  from NewPubKey_decodes [where encodedKey = key36 and pk = ?pk and keyID = "''kid''"]
    DecodeString_key36
  obtain k where k: "NewPubKey key36 ''kid'' = Ok k" "Key k = take 32 (elems ?pk)"
    "ID k = ''kid''" "String k = key36"
    by auto
  then have "k = \<lparr>Key = replicate 32 0x11, ID = ''kid'', encoded = key36\<rparr>"
    by (cases k) (simp add: elems_def String_def)
  with k(1) bad DecodeString_key36
    NewPubKey_decodes [where encodedKey = "''!AAA''" and keyID = "''kid''"
      and pk = "\<lparr>array = [0, 0, 0], len = 0\<rparr>" and err = "CorruptInputError 0"]
  show ?thesis by simp
qed

text \<open>
  Claim C6. The body that \<^verbatim>\<open>putRepoSecret\<close> sends has the fields \<^verbatim>\<open>encrypted_value\<close> and
  \<^verbatim>\<open>key_id\<close> only. For the body that \<^verbatim>\<open>putOrgSecret\<close> sends, the claim says that
  \<^verbatim>\<open>visibility\<close> is always there; the field is tagged \<^verbatim>\<open>omitempty\<close>, so it is there exactly
  when the visibility is not the empty string (last theorem below: an empty visibility gives
  the body of a repository secret). \<^verbatim>\<open>selected_repository_ids\<close> is there only with a non-empty
  list of resolved identifiers, and never when the visibility is not "selected" (or the
  organization name is empty), since then nothing is resolved.
\<close>

theorem payload_fields:
  "(\<exists>path. snd (putRepoSecret client pk repo secretName eValue sent) =
       sent @ [RESTRequest (RepoHost repo) ''PUT'' path
                 (Some [(''encrypted_value'', JString eValue), (''key_id'', JString (ID pk))])])
   \<and> (\<forall>h m p body.
        RESTRequest h m p (Some body)
          \<in> set (drop (length sent) (snd (putOrgSecret Quote client pk host opts eValue sent))) \<longrightarrow>
        map_of body ''visibility'' =
          (if CreateOptions.Visibility opts = [] then None
           else Some (JString (CreateOptions.Visibility opts)))
        \<and> (OrgName opts = [] \<or> CreateOptions.Visibility opts \<noteq> visSelected \<longrightarrow>
             map_of body ''selected_repository_ids'' = None)
        \<and> (OrgName opts \<noteq> [] \<and> CreateOptions.Visibility opts = visSelected \<longrightarrow>
             (\<exists>ids. fst (mapRepoNameToID Quote client host (OrgName opts) (RepositoryNames opts) sent) = Ok ids
                \<and> map_of body ''selected_repository_ids'' =
                    (if ids = [] then None else Some (JInts ids)))))"
proof (intro conjI allI impI)
  show "\<exists>path. snd (putRepoSecret client pk repo secretName eValue sent) =
       sent @ [RESTRequest (RepoHost repo) ''PUT'' path
                 (Some [(''encrypted_value'', JString eValue), (''key_id'', JString (ID pk))])]"
    by (simp add: putRepoSecret_def putSecret_eq Marshal_def)
next
  fix h m p body
  assume "RESTRequest h m p (Some body)
     \<in> set (drop (length sent) (snd (putOrgSecret Quote client pk host opts eValue sent)))"
  from putOrgSecret_body [OF this] obtain ids where
    b: "body = fst (Marshal \<lparr>EncryptedValue = eValue, Visibility = CreateOptions.Visibility opts,
                            Repositories = ids, KeyID = ID pk\<rparr>)"
    and i: "if OrgName opts \<noteq> [] \<and> CreateOptions.Visibility opts = visSelected
            then fst (mapRepoNameToID Quote client host (OrgName opts) (RepositoryNames opts) sent) = Ok ids
            else ids = []"
    by blast
  from b show "map_of body ''visibility'' =
          (if CreateOptions.Visibility opts = [] then None
           else Some (JString (CreateOptions.Visibility opts)))"
    by (simp add: Marshal_fields)
  { assume "OrgName opts = [] \<or> CreateOptions.Visibility opts \<noteq> visSelected"
    with i have "ids = []" by auto
    with b show "map_of body ''selected_repository_ids'' = None"
      by (simp add: Marshal_fields) }
  { assume "OrgName opts \<noteq> [] \<and> CreateOptions.Visibility opts = visSelected"
    with i have "fst (mapRepoNameToID Quote client host (OrgName opts) (RepositoryNames opts) sent) = Ok ids"
      by simp
    with b show "\<exists>ids. fst (mapRepoNameToID Quote client host (OrgName opts) (RepositoryNames opts) sent) = Ok ids
                \<and> map_of body ''selected_repository_ids'' =
                    (if ids = [] then None else Some (JInts ids))"
      by (auto simp: Marshal_fields) }
qed

text \<open>The visibility "selected" with the identifiers 10 and 20.\<close>

theorem payload_fields_witness:
  "snd (putOrgSecret plainQuote idsClient pk1 ''github.com'' (selectedOpts ''org'' ''selected'') ''enc'' []) =
     [GraphQLRequest ''github.com'' (mapQuery plainQuote ''org'' [''a'', ''b'']),
      RESTRequest ''github.com'' ''PUT'' ''orgs/org/actions/secrets/TOKEN''
        (Some [(''encrypted_value'', JString ''enc''), (''visibility'', JString ''selected''),
               (''selected_repository_ids'', JInts [10, 20]), (''key_id'', JString ''kid'')])]
   \<and> map_of [(''encrypted_value'', JString ''enc''), (''visibility'', JString ''selected''),
              (''selected_repository_ids'', JInts [10, 20]), (''key_id'', JString ''kid'')]
        ''visibility'' = Some (JString ''selected'')"
proof -
  let ?body = "[(''encrypted_value'', JString ''enc''), (''visibility'', JString ''selected''),
               (''selected_repository_ids'', JInts [10, 20]), (''key_id'', JString ''kid'')]"
  have s: "snd (putOrgSecret plainQuote idsClient pk1 ''github.com'' (selectedOpts ''org'' ''selected'') ''enc'' []) =
     [GraphQLRequest ''github.com'' (mapQuery plainQuote ''org'' [''a'', ''b'']),
      RESTRequest ''github.com'' ''PUT'' ''orgs/org/actions/secrets/TOKEN'' (Some ?body)]"
    by (simp add: putOrgSecret_def Let_def selectedOpts_def visSelected_def mapRepoNameToID_def
          GraphQL_def idsClient_def replyClient_def putSecret_def Marshal_def REST_def pk1_def)
  then have "RESTRequest ''github.com'' ''PUT'' ''orgs/org/actions/secrets/TOKEN'' (Some ?body)
     \<in> set (drop (length ([] :: request list))
          (snd (putOrgSecret plainQuote idsClient pk1 ''github.com'' (selectedOpts ''org'' ''selected'') ''enc'' [])))"
    by simp
  with payload_fields [of idsClient pk1 _ _ "''enc''" "[]" plainQuote "''github.com''"
      "selectedOpts ''org'' ''selected''"]
  have "map_of ?body ''visibility'' =
     (if CreateOptions.Visibility (selectedOpts ''org'' ''selected'') = [] then None
      else Some (JString (CreateOptions.Visibility (selectedOpts ''org'' ''selected''))))"
    by blast
  with s show ?thesis by (simp add: selectedOpts_def)
qed

text \<open>An organization secret with the empty visibility: the body has no \<^verbatim>\<open>visibility\<close> field.\<close>

theorem putOrgSecret_empty_visibility:
  "putOrgSecret plainQuote idsClient pk1 ''github.com'' (selectedOpts ''org'' '''') ''enc'' [] =
     (Ok (), [RESTRequest ''github.com'' ''PUT'' ''orgs/org/actions/secrets/TOKEN''
                (Some [(''encrypted_value'', JString ''enc''), (''key_id'', JString ''kid'')])])"
  by (simp add: putOrgSecret_def Let_def selectedOpts_def visSelected_def
        idsClient_def replyClient_def putSecret_def Marshal_def REST_def pk1_def noKey_def)

text \<open>
  Claim C7. When the \<^verbatim>\<open>GET\<close> request succeeds and the \<^verbatim>\<open>Key\<close> of the response is empty,
  \<^verbatim>\<open>getPubKey\<close> fails with "failed to find public key at host/path", whatever the other field
  holds; when the request itself fails, its error is returned as it is.
\<close>

theorem getPubKey_not_found:
  "(REST_reply client sent host ''GET'' path None = (None, result) \<and> result_Key result = [] \<longrightarrow>
      getPubKey client host path sent =
        (Err (ErrorString (''failed to find public key at '' @ host @ ''/'' @ path)),
         sent @ [RESTRequest host ''GET'' path None]))
   \<and> (REST_reply client sent host ''GET'' path None = (Some err, result) \<longrightarrow>
      getPubKey client host path sent = (Err err, sent @ [RESTRequest host ''GET'' path None]))"
  by (simp add: getPubKey_def REST_def)

text \<open>A response with a key identifier and an empty key, and a request that fails.\<close>

theorem getPubKey_not_found_witness:
  "getPubKey (replyClient None \<lparr>result_Key = [], result_ID = ''568250167242549743''\<rparr> None Map.empty)
      ''github.com'' ''orgs/org/actions/secrets/public-key'' [] =
     (Err (ErrorString ''failed to find public key at github.com/orgs/org/actions/secrets/public-key''),
      [RESTRequest ''github.com'' ''GET'' ''orgs/org/actions/secrets/public-key'' None])
   \<and> getPubKey (replyClient (Some (ClientError ''HTTP 404'')) noKey None Map.empty)
      ''github.com'' ''orgs/org/actions/secrets/public-key'' [] =
     (Err (ClientError ''HTTP 404''),
      [RESTRequest ''github.com'' ''GET'' ''orgs/org/actions/secrets/public-key'' None])"
proof -
  let ?c1 = "replyClient None \<lparr>result_Key = [], result_ID = ''568250167242549743''\<rparr> None Map.empty"
  let ?c2 = "replyClient (Some (ClientError ''HTTP 404'')) noKey None Map.empty"
  let ?p = "''orgs/org/actions/secrets/public-key''"
  have a: "REST_reply ?c1 [] ''github.com'' ''GET'' ?p None =
             (None, \<lparr>result_Key = [], result_ID = ''568250167242549743''\<rparr>)
           \<and> result_Key \<lparr>result_Key = [], result_ID = ''568250167242549743''\<rparr> = []"
    by (simp add: replyClient_def)
  have b: "REST_reply ?c2 [] ''github.com'' ''GET'' ?p None = (Some (ClientError ''HTTP 404''), noKey)"
    by (simp add: replyClient_def)
  from getPubKey_not_found [of ?c1 "[]" "''github.com''" ?p
        "\<lparr>result_Key = [], result_ID = ''568250167242549743''\<rparr>" "ClientError ''HTTP 404''"] a
  have 1: "getPubKey ?c1 ''github.com'' ?p [] =
        (Err (ErrorString (''failed to find public key at '' @ ''github.com'' @ ''/'' @ ?p)),
         [] @ [RESTRequest ''github.com'' ''GET'' ?p None])" by blast
  from getPubKey_not_found [of ?c2 "[]" "''github.com''" ?p noKey "ClientError ''HTTP 404''"] b
  have 2: "getPubKey ?c2 ''github.com'' ?p [] =
        (Err (ClientError ''HTTP 404''), [] @ [RESTRequest ''github.com'' ''GET'' ?p None])" by blast
  from 1 2 show ?thesis by simp
qed

text \<open>
  Claim C8. When \<^verbatim>\<open>putOrgSecret\<close> resolves the repository names and the resolution returns an
  error, the error returned wraps that error (\<^verbatim>\<open>Unwrap\<close> gives it back) behind the text
  "failed to look up IDs for repositories" and the list of the requested names, and the only
  request made is the GraphQL query: no \<^verbatim>\<open>PUT\<close> is sent.
\<close>

theorem putOrgSecret_lookup_fails:
  assumes "OrgName opts \<noteq> []" and "CreateOptions.Visibility opts = visSelected"
    and "mapRepoNameToID Quote client host (OrgName opts) (RepositoryNames opts) sent = (Err err, sent')"
  shows "\<exists>e. putOrgSecret Quote client pk host opts eValue sent = (Err e, sent')
     \<and> e = WrapError (''failed to look up IDs for repositories ''
                        @ fmt_v (RepositoryNames opts) @ '': '') err
     \<and> Unwrap e = Some err
     \<and> sent' = sent @ [GraphQLRequest host (mapQuery Quote (OrgName opts) (RepositoryNames opts))]"
  using assms mapRepoNameToID_sent [of Quote client host "OrgName opts" "RepositoryNames opts" sent]
  by (simp add: putOrgSecret_lookup)

text \<open>The repository b is not found: the error names the list [a b] and wraps the cause.\<close>

theorem putOrgSecret_lookup_fails_witness:
  "putOrgSecret plainQuote (notFoundClient [notFound [''b'']]) pk1 ''github.com''
      (selectedOpts ''org'' ''selected'') ''enc'' [] =
     (Err (WrapError ''failed to look up IDs for repositories [a b]: ''
            (ErrorString ''could not find org/b'')),
      [GraphQLRequest ''github.com'' (mapQuery plainQuote ''org'' [''a'', ''b''])])"
proof -
  let ?opts = "selectedOpts ''org'' ''selected''"
  let ?c = "notFoundClient [notFound [''b'']]"
  have o: "OrgName ?opts \<noteq> []" and v: "CreateOptions.Visibility ?opts = visSelected"
    by (simp_all add: selectedOpts_def visSelected_def)
  have m: "mapRepoNameToID plainQuote ?c ''github.com'' (OrgName ?opts) (RepositoryNames ?opts) [] =
     (Err (ErrorString ''could not find org/b''),
      [GraphQLRequest ''github.com'' (mapQuery plainQuote ''org'' [''a'', ''b''])])"
    by (simp add: mapRepoNameToID_def GraphQL_def notFoundClient_def replyClient_def notFound_def
          selectedOpts_def)
  from putOrgSecret_lookup_fails [OF o v m, of pk1 "''enc''"] show ?thesis
    by (auto simp: selectedOpts_def fmt_v_def)
qed

text \<open>
  Claim C9. \<^verbatim>\<open>putSecret\<close> is idempotent. For every client, a call of \<^verbatim>\<open>putSecret\<close> sends one
  \<^verbatim>\<open>PUT\<close> request, with the host, the path and the serialized payload, and returns exactly
  what the client answers to it (first conjunct). Against the store of the specification, two
  calls with the same arguments therefore send the same request twice and have the same
  outcome, success both times unless the transport fails the request; the store after the
  second call is the store after the first, and it holds the payload at the path when the
  write succeeded.
\<close>

theorem putSecret_idempotent:
  "putSecret client host path payload sent =
     ((case fst (REST_reply client sent host ''PUT'' path (Some (fst (Marshal payload)))) of
         None \<Rightarrow> Ok () | Some err \<Rightarrow> Err err),
      sent @ [RESTRequest host ''PUT'' path (Some (fst (Marshal payload)))])
   \<and> putSecret (storeClient transport) host path payload sent =
     ((case transport (RESTRequest host ''PUT'' path (Some (fst (Marshal payload)))) of
         None \<Rightarrow> Ok () | Some err \<Rightarrow> Err err),
      sent @ [RESTRequest host ''PUT'' path (Some (fst (Marshal payload)))])
   \<and> putSecret (storeClient transport) host path payload
       (sent @ [RESTRequest host ''PUT'' path (Some (fst (Marshal payload)))]) =
     ((case transport (RESTRequest host ''PUT'' path (Some (fst (Marshal payload)))) of
         None \<Rightarrow> Ok () | Some err \<Rightarrow> Err err),
      sent @ [RESTRequest host ''PUT'' path (Some (fst (Marshal payload))),
              RESTRequest host ''PUT'' path (Some (fst (Marshal payload)))])
   \<and> store_of transport
        (sent @ [RESTRequest host ''PUT'' path (Some (fst (Marshal payload))),
                 RESTRequest host ''PUT'' path (Some (fst (Marshal payload)))]) =
      store_of transport (sent @ [RESTRequest host ''PUT'' path (Some (fst (Marshal payload)))])
   \<and> store_of transport (sent @ [RESTRequest host ''PUT'' path (Some (fst (Marshal payload)))])
        (host, path) =
      (case transport (RESTRequest host ''PUT'' path (Some (fst (Marshal payload)))) of
         None \<Rightarrow> Some (fst (Marshal payload))
       | Some err \<Rightarrow> store_of transport sent (host, path))"
proof -
  let ?req = "RESTRequest host ''PUT'' path (Some (fst (Marshal payload)))"
  have r: "fst (REST_reply (storeClient transport) s host ''PUT'' path (Some (fst (Marshal payload))))
             = transport ?req" for s
    by (simp add: storeClient_def)
  have twice: "store_of transport (sent @ [?req, ?req]) = store_of transport (sent @ [?req])"
    using store_of_snoc [of transport "sent @ [?req]" ?req] store_of_snoc [of transport sent ?req]
    by (simp add: upsert_twice)
  have stored: "store_of transport (sent @ [?req]) (host, path) =
      (case transport ?req of None \<Rightarrow> Some (fst (Marshal payload))
       | Some err \<Rightarrow> store_of transport sent (host, path))"
    by (simp add: store_of_snoc upsert_def split: option.splits)
  from twice stored show ?thesis by (simp add: putSecret_eq r)
qed

text \<open>The store with no transport failure: both calls succeed and the secret is stored once.\<close>

theorem putSecret_idempotent_witness:
  "putSecret (storeClient (\<lambda>req. None)) ''github.com'' ''repos/o/r/actions/secrets/TOKEN''
      \<lparr>EncryptedValue = ''enc'', Visibility = [], Repositories = [], KeyID = ''kid''\<rparr> [] =
     (Ok (), [RESTRequest ''github.com'' ''PUT'' ''repos/o/r/actions/secrets/TOKEN''
                (Some [(''encrypted_value'', JString ''enc''), (''key_id'', JString ''kid'')])])
   \<and> putSecret (storeClient (\<lambda>req. None)) ''github.com'' ''repos/o/r/actions/secrets/TOKEN''
      \<lparr>EncryptedValue = ''enc'', Visibility = [], Repositories = [], KeyID = ''kid''\<rparr>
      [RESTRequest ''github.com'' ''PUT'' ''repos/o/r/actions/secrets/TOKEN''
                (Some [(''encrypted_value'', JString ''enc''), (''key_id'', JString ''kid'')])] =
     (Ok (), [RESTRequest ''github.com'' ''PUT'' ''repos/o/r/actions/secrets/TOKEN''
                (Some [(''encrypted_value'', JString ''enc''), (''key_id'', JString ''kid'')]),
              RESTRequest ''github.com'' ''PUT'' ''repos/o/r/actions/secrets/TOKEN''
                (Some [(''encrypted_value'', JString ''enc''), (''key_id'', JString ''kid'')])])
   \<and> store_of (\<lambda>req. None)
        [RESTRequest ''github.com'' ''PUT'' ''repos/o/r/actions/secrets/TOKEN''
                (Some [(''encrypted_value'', JString ''enc''), (''key_id'', JString ''kid'')]),
         RESTRequest ''github.com'' ''PUT'' ''repos/o/r/actions/secrets/TOKEN''
                (Some [(''encrypted_value'', JString ''enc''), (''key_id'', JString ''kid'')])]
        (''github.com'', ''repos/o/r/actions/secrets/TOKEN'') =
      Some [(''encrypted_value'', JString ''enc''), (''key_id'', JString ''kid'')]"
proof -
  let ?p = "\<lparr>EncryptedValue = ''enc'', Visibility = [], Repositories = [], KeyID = ''kid''\<rparr>"
  have b: "fst (Marshal ?p) = [(''encrypted_value'', JString ''enc''), (''key_id'', JString ''kid'')]"
    by (simp add: Marshal_def)
  from putSecret_idempotent [of "storeClient (\<lambda>req. None)" "''github.com''"
      "''repos/o/r/actions/secrets/TOKEN''" ?p "[]" "\<lambda>req. None"] b
  show ?thesis by (simp add: storeClient_def)
qed

text \<open>
  Claim C10. With an empty organization name \<^verbatim>\<open>putOrgSecret\<close> resolves no repository name,
  whatever the visibility: it is the single call of \<^verbatim>\<open>putSecret\<close> on the path
  \<^verbatim>\<open>orgs//actions/secrets/NAME\<close> with an empty list of identifiers. With the visibility
  "selected" the only request is that \<^verbatim>\<open>PUT\<close>, and its body has \<^verbatim>\<open>visibility\<close> "selected" and no
  \<^verbatim>\<open>selected_repository_ids\<close>.
\<close>

theorem putOrgSecret_empty_org:
  assumes "OrgName opts = []"
  shows "putOrgSecret Quote client pk host opts eValue sent =
       putSecret client host (''orgs//actions/secrets/'' @ SecretName opts)
         \<lparr>EncryptedValue = eValue, Visibility = CreateOptions.Visibility opts,
          Repositories = [], KeyID = ID pk\<rparr> sent
     \<and> (CreateOptions.Visibility opts = visSelected \<longrightarrow>
          snd (putOrgSecret Quote client pk host opts eValue sent) =
            sent @ [RESTRequest host ''PUT'' (''orgs//actions/secrets/'' @ SecretName opts)
                      (Some [(''encrypted_value'', JString eValue),
                             (''visibility'', JString ''selected''),
                             (''key_id'', JString (ID pk))])])"
  using assms putOrgSecret_no_lookup [of opts Quote client pk host eValue sent]
  by (simp add: putSecret_eq Marshal_def visSelected_def)

text \<open>An empty organization name with the visibility "selected".\<close>

theorem putOrgSecret_empty_org_witness:
  "putOrgSecret plainQuote idsClient pk1 ''github.com'' (selectedOpts [] ''selected'') ''enc'' [] =
     (Ok (), [RESTRequest ''github.com'' ''PUT'' ''orgs//actions/secrets/TOKEN''
                (Some [(''encrypted_value'', JString ''enc''), (''visibility'', JString ''selected''),
                       (''key_id'', JString ''kid'')])])"
proof -
  let ?opts = "selectedOpts [] ''selected''"
  have o: "OrgName ?opts = []" by (simp add: selectedOpts_def)
  have r: "putSecret idsClient ''github.com'' (''orgs//actions/secrets/'' @ SecretName ?opts)
         \<lparr>EncryptedValue = ''enc'', Visibility = CreateOptions.Visibility ?opts,
          Repositories = [], KeyID = ID pk1\<rparr> [] =
     (Ok (), [RESTRequest ''github.com'' ''PUT'' ''orgs//actions/secrets/TOKEN''
                (Some [(''encrypted_value'', JString ''enc''), (''visibility'', JString ''selected''),
                       (''key_id'', JString ''kid'')])])"
    by (simp add: putSecret_def Marshal_def REST_def idsClient_def replyClient_def
          selectedOpts_def pk1_def)
  from putOrgSecret_empty_org [OF o, of plainQuote idsClient pk1 "''github.com''" "''enc''" "[]",
      THEN conjunct1] r
  show ?thesis by simp
qed

end
